theory Spec2Isabelle
  imports Complex_Main
begin

section \<open>JavaScript numbers\<close>

text \<open>
  A JavaScript number is an IEEE double. The model keeps the three kinds of special
  value the program can meet (\<open>NaN\<close>, \<open>-Infinity\<close>, \<open>+Infinity\<close>) and takes every
  finite value as a real; the sign of zero is not modelled (every zero is \<open>+0\<close>).
  The operations of this section are the exact ones: they give the result before it is
  rounded to a double. The section on double arithmetic below adds the rounding, for
  what depends on the decimals of a result.
\<close>

datatype jsnum = NaN | NInf | Fin real | PInf

definition isNaN :: "jsnum \<Rightarrow> bool" where
  "isNaN v = (v = NaN)"

text \<open>The comparison \<open>x <= y\<close>: false as soon as an operand is \<open>NaN\<close>.\<close>

fun js_le :: "jsnum \<Rightarrow> jsnum \<Rightarrow> bool" where
  "js_le NaN _ = False"
| "js_le _ NaN = False"
| "js_le NInf _ = True"
| "js_le _ PInf = True"
| "js_le (Fin a) (Fin b) = (a \<le> b)"
| "js_le _ _ = False"

text \<open>The comparison \<open>x < y\<close>.\<close>

fun js_lt :: "jsnum \<Rightarrow> jsnum \<Rightarrow> bool" where
  "js_lt NaN _ = False"
| "js_lt _ NaN = False"
| "js_lt (Fin a) (Fin b) = (a < b)"
| "js_lt NInf NInf = False"
| "js_lt PInf PInf = False"
| "js_lt NInf _ = True"
| "js_lt _ PInf = True"
| "js_lt _ _ = False"

text \<open>Strict equality \<open>x === y\<close> on numbers: \<open>NaN\<close> equals nothing.\<close>

definition js_eq :: "jsnum \<Rightarrow> jsnum \<Rightarrow> bool" where
  "js_eq x y = (\<not> isNaN x \<and> \<not> isNaN y \<and> x = y)"

text \<open>\<open>Math.min\<close> and \<open>Math.max\<close> of two arguments: \<open>NaN\<close> if either is.\<close>

definition js_min :: "jsnum \<Rightarrow> jsnum \<Rightarrow> jsnum" where
  "js_min x y = (if isNaN x \<or> isNaN y then NaN else if js_le x y then x else y)"

definition js_max :: "jsnum \<Rightarrow> jsnum \<Rightarrow> jsnum" where
  "js_max x y = (if isNaN x \<or> isNaN y then NaN else if js_le x y then y else x)"

text \<open>The sign of a number that is not \<open>NaN\<close>, used by multiplication and division.\<close>

fun js_sign :: "jsnum \<Rightarrow> int" where
  "js_sign NaN = 0"
| "js_sign NInf = - 1"
| "js_sign PInf = 1"
| "js_sign (Fin a) = (if a < 0 then - 1 else if a = 0 then 0 else 1)"

definition js_inf :: "int \<Rightarrow> jsnum" where
  "js_inf s = (if s = 0 then NaN else if 0 < s then PInf else NInf)"

text \<open>\<open>x - y\<close>: the difference of two infinities of the same sign is \<open>NaN\<close>.\<close>

fun js_sub :: "jsnum \<Rightarrow> jsnum \<Rightarrow> jsnum" where
  "js_sub NaN _ = NaN"
| "js_sub _ NaN = NaN"
| "js_sub (Fin a) (Fin b) = Fin (a - b)"
| "js_sub PInf PInf = NaN"
| "js_sub NInf NInf = NaN"
| "js_sub PInf _ = PInf"
| "js_sub NInf _ = NInf"
| "js_sub (Fin a) PInf = NInf"
| "js_sub (Fin a) NInf = PInf"

text \<open>\<open>x * y\<close>: an infinity times zero is \<open>NaN\<close>.\<close>

fun js_mul :: "jsnum \<Rightarrow> jsnum \<Rightarrow> jsnum" where
  "js_mul NaN _ = NaN"
| "js_mul _ NaN = NaN"
| "js_mul (Fin a) (Fin b) = Fin (a * b)"
| "js_mul x y = js_inf (js_sign x * js_sign y)"

text \<open>
  \<open>x / y\<close>: a finite number over an infinity is zero, an infinity over an infinity and
  zero over zero are \<open>NaN\<close>, anything else over zero is an infinity.
\<close>

fun js_div :: "jsnum \<Rightarrow> jsnum \<Rightarrow> jsnum" where
  "js_div NaN _ = NaN"
| "js_div _ NaN = NaN"
| "js_div (Fin a) (Fin b) = (if b = 0 then js_inf (js_sign (Fin a)) else Fin (a / b))"
| "js_div (Fin a) _ = Fin 0"
| "js_div x (Fin b) = js_inf (js_sign x * (if b < 0 then - 1 else 1))"
| "js_div _ _ = NaN"

section \<open>The path of the rounded rectangle\<close>

text \<open>
  \<open>generateiOSRoundedRectPath\<close> returns the text of an SVG path (\<open>d\<close> attribute). The
  model keeps the sequence of commands that the template strings spell, each with its
  numeric arguments in the order of the text; how a number is printed is not modelled.
\<close>

datatype svg_cmd =
    SvgM jsnum jsnum
  | SvgH jsnum
  | SvgV jsnum
  | SvgC jsnum jsnum jsnum jsnum jsnum jsnum
  | SvgZ

text \<open>The two locals \<open>maxRadius\<close> and \<open>r\<close> (the clamped radius) of the function.\<close>

definition maxRadius :: "jsnum \<Rightarrow> jsnum \<Rightarrow> jsnum" where
  "maxRadius width height = js_min (js_div width (Fin 2)) (js_div height (Fin 2))"

definition effectiveRadius :: "jsnum \<Rightarrow> jsnum \<Rightarrow> jsnum \<Rightarrow> jsnum" where
  "effectiveRadius width height radius =
     js_max (Fin 0) (js_min radius (maxRadius width height))"

definition generateiOSRoundedRectPath :: "jsnum \<Rightarrow> jsnum \<Rightarrow> jsnum \<Rightarrow> svg_cmd list" where
  "generateiOSRoundedRectPath width height radius =
     (let r = effectiveRadius width height radius in
      if js_eq r (Fin 0) then
        [SvgM (Fin 0) (Fin 0), SvgH width, SvgV height, SvgH (Fin 0), SvgZ]
      else
        let r065 = js_mul r (Fin 0.65);
            r0475 = js_mul r (Fin 0.475);
            r00681 = js_mul r (Fin 0.0681);
            r03413 = js_mul r (Fin 0.3413);
            r01280 = js_mul r (Fin 0.1280);
            r02237 = js_mul r (Fin 0.2237);
            topLeft =
              [SvgM (Fin 0) r,
               SvgC (Fin 0) r065 (Fin 0) r0475 r00681 r03413,
               SvgC r01280 r02237 r02237 r01280 r03413 r00681,
               SvgC r0475 (Fin 0) r065 (Fin 0) r (Fin 0)];
            topRight =
              [SvgH (js_sub width r),
               SvgC (js_sub width r065) (Fin 0) (js_sub width r0475) (Fin 0)
                    (js_sub width r03413) r00681,
               SvgC (js_sub width r02237) r01280 (js_sub width r01280) r02237
                    (js_sub width r00681) r03413,
               SvgC width r0475 width r065 width r];
            bottomRight =
              [SvgV (js_sub height r),
               SvgC width (js_sub height r065) width (js_sub height r0475)
                    (js_sub width r00681) (js_sub height r03413),
               SvgC (js_sub width r01280) (js_sub height r02237)
                    (js_sub width r02237) (js_sub height r01280)
                    (js_sub width r03413) (js_sub height r00681),
               SvgC (js_sub width r0475) height (js_sub width r065) height
                    (js_sub width r) height];
            bottomLeft =
              [SvgH r,
               SvgC r065 height r0475 height r03413 (js_sub height r00681),
               SvgC r02237 (js_sub height r01280) r01280 (js_sub height r02237)
                    r00681 (js_sub height r03413),
               SvgC (Fin 0) (js_sub height r0475) (Fin 0) (js_sub height r065)
                    (Fin 0) (js_sub height r)]
        in topLeft @ topRight @ bottomRight @ bottomLeft @ [SvgZ])"

text \<open>
  What the path means to the drawing surface: the commands are absolute, \<open>H\<close> and
  \<open>V\<close> draw a line from the current point keeping its other coordinate, \<open>C\<close> draws a
  cubic curve to its last pair, and \<open>Z\<close> closes the contour back to the point of the last
  \<open>M\<close>. \<open>segments s c cmds\<close> reads \<open>cmds\<close> with \<open>s\<close> the start of the contour and \<open>c\<close>
  the current point.
\<close>

type_synonym point = "jsnum \<times> jsnum"

datatype segment =
    MoveTo point
  | LineTo point
  | CurveTo point point point
  | ClosePath

fun segments :: "point \<Rightarrow> point \<Rightarrow> svg_cmd list \<Rightarrow> segment list" where
  "segments s c [] = []"
| "segments s c (SvgM x y # cs) = MoveTo (x, y) # segments (x, y) (x, y) cs"
| "segments s c (SvgH x # cs) = LineTo (x, snd c) # segments s (x, snd c) cs"
| "segments s c (SvgV y # cs) = LineTo (fst c, y) # segments s (fst c, y) cs"
| "segments s c (SvgC x1 y1 x2 y2 x y # cs) =
     CurveTo (x1, y1) (x2, y2) (x, y) # segments s (x, y) cs"
| "segments s c (SvgZ # cs) = ClosePath # segments s s cs"

definition contour :: "svg_cmd list \<Rightarrow> segment list" where
  "contour cmds = segments (Fin 0, Fin 0) (Fin 0, Fin 0) cmds"

text \<open>Observations on a path: the letter of a command, its kind, its end point.\<close>

fun cmd_letter :: "svg_cmd \<Rightarrow> char" where
  "cmd_letter (SvgM _ _) = CHR ''M''"
| "cmd_letter (SvgH _) = CHR ''H''"
| "cmd_letter (SvgV _) = CHR ''V''"
| "cmd_letter (SvgC _ _ _ _ _ _) = CHR ''C''"
| "cmd_letter SvgZ = CHR ''Z''"

fun is_curve :: "svg_cmd \<Rightarrow> bool" where
  "is_curve (SvgC _ _ _ _ _ _) = True"
| "is_curve _ = False"

fun is_line :: "svg_cmd \<Rightarrow> bool" where
  "is_line (SvgH _) = True"
| "is_line (SvgV _) = True"
| "is_line _ = False"

fun is_close :: "svg_cmd \<Rightarrow> bool" where
  "is_close SvgZ = True"
| "is_close _ = False"

fun start_point :: "svg_cmd list \<Rightarrow> point option" where
  "start_point (SvgM x y # _) = Some (x, y)"
| "start_point _ = None"

fun first_curve_end :: "svg_cmd list \<Rightarrow> point option" where
  "first_curve_end [] = None"
| "first_curve_end (SvgC _ _ _ _ x y # _) = Some (x, y)"
| "first_curve_end (_ # cs) = first_curve_end cs"

fun curve_coords :: "svg_cmd list \<Rightarrow> jsnum list" where
  "curve_coords [] = []"
| "curve_coords (SvgC x1 y1 x2 y2 x y # cs) = [x1, y1, x2, y2, x, y] @ curve_coords cs"
| "curve_coords (_ # cs) = curve_coords cs"

text \<open>
  The values a curve coordinate may take when it is built from the radius \<open>r\<close> scaled by
  one of the factors \<open>ks\<close>: the scaled radius itself, or its mirror image in the width or
  in the height.
\<close>

definition mirrored :: "real list \<Rightarrow> real \<Rightarrow> real \<Rightarrow> real \<Rightarrow> jsnum list" where
  "mirrored ks w h r = concat (map (\<lambda>k. [Fin (k * r), Fin (w - k * r), Fin (h - k * r)]) ks)"

section \<open>Double arithmetic\<close>

text \<open>
  Rounding to a double (IEEE 754 binary64, round to nearest, ties to even). For a
  positive real \<open>a\<close> below \<open>2 ^ 1024\<close>, \<open>exp_up a 0\<close> is the binary exponent \<open>k\<close> of
  \<open>a\<close> when \<open>1 \<le> a\<close> (\<open>2 ^ k \<le> a < 2 ^ (k + 1)\<close>), and \<open>exp_down a 1\<close> is \<open>k\<close> with
  \<open>2 ^ - k \<le> a < 2 ^ - (k - 1)\<close> when \<open>a < 1\<close>, stopping at 1022, the exponent of the
  subnormal numbers. Doubles of that exponent are the multiples of \<open>ulp\<close>, the value of
  the last of their 53 bits; \<open>rne\<close> picks the nearest multiple, the even one on a tie. A
  result of \<open>2 ^ 1024\<close> or more is an infinity.
\<close>

function exp_up :: "real \<Rightarrow> nat \<Rightarrow> nat" where
  "exp_up a k = (if 1023 \<le> k \<or> a < 2 ^ (k + 1) then k else exp_up a (k + 1))"
  by pat_completeness auto
termination
  by (relation "measure (\<lambda>(a, k). 1023 - k)") auto

function exp_down :: "real \<Rightarrow> nat \<Rightarrow> nat" where
  "exp_down a k = (if 1022 \<le> k \<or> 1 / 2 ^ k \<le> a then k else exp_down a (k + 1))"
  by pat_completeness auto
termination
  by (relation "measure (\<lambda>(a, k). 1022 - k)") auto

definition rne :: "real \<Rightarrow> int" where
  "rne q =
     (let f = \<lfloor>q\<rfloor>; d = q - of_int f
      in if d < 1 / 2 then f else if 1 / 2 < d then f + 1
         else if even f then f else f + 1)"

definition round_double :: "real \<Rightarrow> jsnum" where
  "round_double x =
     (let a = \<bar>x\<bar> in
      if a = 0 then Fin 0
      else if 2 ^ 1024 \<le> a then (if x < 0 then NInf else PInf)
      else
        let ulp = (if 1 \<le> a then 2 ^ exp_up a 0 / 2 ^ 52
                   else 1 / 2 ^ (exp_down a 1 + 52));
            v = of_int (rne (a / ulp)) * ulp
        in if 2 ^ 1024 \<le> v then (if x < 0 then NInf else PInf)
           else Fin (if x < 0 then - v else v))"

text \<open>
  The operations of the program on doubles: the exact result, rounded when it is finite.
  A decimal literal of the source, such as \<open>0.0681\<close>, is the double \<open>round_double 0.0681\<close>.
\<close>

definition fl :: "jsnum \<Rightarrow> jsnum" where
  "fl x = (case x of Fin v \<Rightarrow> round_double v | _ \<Rightarrow> x)"

definition fl_sub :: "jsnum \<Rightarrow> jsnum \<Rightarrow> jsnum" where
  "fl_sub x y = fl (js_sub x y)"

definition fl_mul :: "jsnum \<Rightarrow> jsnum \<Rightarrow> jsnum" where
  "fl_mul x y = fl (js_mul x y)"

definition fl_div :: "jsnum \<Rightarrow> jsnum \<Rightarrow> jsnum" where
  "fl_div x y = fl (js_div x y)"

text \<open>
  The body of \<open>generateiOSRoundedRectPath\<close> (lines 11 to 33) once more, with its
  multiplication, subtraction, division and numeric literals as parameters. With the
  exact operations it is the definition above (lemma \<open>exact_path_instance\<close> below);
  with the operations on doubles it is what the program computes on doubles.
\<close>

definition roundedRectPath_with ::
  "(jsnum \<Rightarrow> jsnum \<Rightarrow> jsnum) \<Rightarrow> (jsnum \<Rightarrow> jsnum \<Rightarrow> jsnum) \<Rightarrow> (jsnum \<Rightarrow> jsnum \<Rightarrow> jsnum) \<Rightarrow>
   (real \<Rightarrow> jsnum) \<Rightarrow> jsnum \<Rightarrow> jsnum \<Rightarrow> jsnum \<Rightarrow> svg_cmd list" where
  "roundedRectPath_with mul sub dv lit width height radius =
     (let maxRadius = js_min (dv width (lit 2)) (dv height (lit 2));
          r = js_max (lit 0) (js_min radius maxRadius)
      in
      if js_eq r (lit 0) then
        [SvgM (Fin 0) (Fin 0), SvgH width, SvgV height, SvgH (Fin 0), SvgZ]
      else
        let r065 = mul r (lit 0.65);
            r0475 = mul r (lit 0.475);
            r00681 = mul r (lit 0.0681);
            r03413 = mul r (lit 0.3413);
            r01280 = mul r (lit 0.1280);
            r02237 = mul r (lit 0.2237);
            topLeft =
              [SvgM (Fin 0) r,
               SvgC (Fin 0) r065 (Fin 0) r0475 r00681 r03413,
               SvgC r01280 r02237 r02237 r01280 r03413 r00681,
               SvgC r0475 (Fin 0) r065 (Fin 0) r (Fin 0)];
            topRight =
              [SvgH (sub width r),
               SvgC (sub width r065) (Fin 0) (sub width r0475) (Fin 0)
                    (sub width r03413) r00681,
               SvgC (sub width r02237) r01280 (sub width r01280) r02237
                    (sub width r00681) r03413,
               SvgC width r0475 width r065 width r];
            bottomRight =
              [SvgV (sub height r),
               SvgC width (sub height r065) width (sub height r0475)
                    (sub width r00681) (sub height r03413),
               SvgC (sub width r01280) (sub height r02237)
                    (sub width r02237) (sub height r01280)
                    (sub width r03413) (sub height r00681),
               SvgC (sub width r0475) height (sub width r065) height
                    (sub width r) height];
            bottomLeft =
              [SvgH r,
               SvgC r065 height r0475 height r03413 (sub height r00681),
               SvgC r02237 (sub height r01280) r01280 (sub height r02237)
                    r00681 (sub height r03413),
               SvgC (Fin 0) (sub height r0475) (Fin 0) (sub height r065)
                    (Fin 0) (sub height r)]
        in topLeft @ topRight @ bottomRight @ bottomLeft @ [SvgZ])"

definition generateiOSRoundedRectPath_double ::
  "jsnum \<Rightarrow> jsnum \<Rightarrow> jsnum \<Rightarrow> svg_cmd list" where
  "generateiOSRoundedRectPath_double width height radius =
     roundedRectPath_with fl_mul fl_sub fl_div round_double width height radius"

section \<open>Lengths of custom properties\<close>

text \<open>
  The built-in \<open>parseFloat\<close>, after ECMAScript: skip leading white space, then read the
  longest prefix that is a decimal literal (an optional sign, then \<open>Infinity\<close> or digits
  with an optional fraction and an optional exponent); \<open>NaN\<close> when there is none. Strings
  are byte strings, so only the ASCII white space is skipped, and the value of the
  literal is exact.
\<close>

definition is_ws :: "char \<Rightarrow> bool" where
  "is_ws c = (c \<in> set [CHR 0x09, CHR 0x0A, CHR 0x0B, CHR 0x0C, CHR 0x0D, CHR 0x20])"

definition is_digit :: "char \<Rightarrow> bool" where
  "is_digit c = (c \<in> set ''0123456789'')"

definition digit_val :: "char \<Rightarrow> nat" where
  "digit_val c = of_char c - of_char (CHR ''0'')"

definition digits_val :: "string \<Rightarrow> nat" where
  "digits_val ds = foldl (\<lambda>n c. 10 * n + digit_val c) 0 ds"

fun strip_sign :: "string \<Rightarrow> bool \<times> string" where
  "strip_sign [] = (False, [])"
| "strip_sign (c # cs) =
     (if c = CHR ''-'' then (True, cs) else if c = CHR ''+'' then (False, cs)
      else (False, c # cs))"

definition pow10 :: "int \<Rightarrow> real" where
  "pow10 e = (if 0 \<le> e then 10 ^ nat e else 1 / 10 ^ nat (- e))"

definition exponent_part :: "string \<Rightarrow> int" where
  "exponent_part s =
     (case s of
        [] \<Rightarrow> 0
      | c # cs \<Rightarrow>
          if c = CHR ''e'' \<or> c = CHR ''E'' then
            (let (neg, ds) = strip_sign cs;
                 es = takeWhile is_digit ds
             in if es = [] then 0
                else if neg then - int (digits_val es) else int (digits_val es))
          else 0)"

definition parseFloat :: "string \<Rightarrow> jsnum" where
  "parseFloat s =
     (let (neg, u) = strip_sign (dropWhile is_ws s) in
      if take 8 u = ''Infinity'' then (if neg then NInf else PInf)
      else
        let ip = takeWhile is_digit u;
            u1 = dropWhile is_digit u;
            dot = (u1 \<noteq> [] \<and> hd u1 = CHR ''.'');
            fp = (if dot then takeWhile is_digit (tl u1) else []);
            u2 = (if dot then dropWhile is_digit (tl u1) else u1)
        in if ip = [] \<and> fp = [] then NaN
           else
             let v = (real (digits_val ip) + real (digits_val fp) / 10 ^ length fp)
                       * pow10 (exponent_part u2)
             in Fin (if neg then - v else v))"

text \<open>
  The value \<open>props.get(name)\<close> hands to \<open>parseCSSLength\<close>: \<open>None\<close> is a missing value
  (\<open>undefined\<close> or \<open>null\<close>, the only falsy values an object-valued lookup yields);
  \<open>Numeric n\<close> is an object whose \<open>value\<close> field has type number; \<open>Text s\<close> is any other
  object, with \<open>s\<close> the result of its \<open>toString()\<close>.
\<close>

datatype css_value = Numeric jsnum | Text string

definition parseCSSLength :: "css_value option \<Rightarrow> jsnum \<Rightarrow> jsnum" where
  "parseCSSLength prop defaultValue =
     (let value =
        (case prop of
           None \<Rightarrow> defaultValue
         | Some (Numeric n) \<Rightarrow> n
         | Some (Text s) \<Rightarrow> parseFloat s)
      in if isNaN value then defaultValue else js_max (Fin 0) value)"

section \<open>The drawing surface and the inner-stroke painter\<close>

text \<open>
  The current transformation of the surface is an affine matrix
  \<open>(a, b, c, d, e, f)\<close>, which sends \<open>(x, y)\<close> to \<open>(a x + c y + e, b x + d y + f)\<close>.
\<close>

record matrix2d =
  m_a :: real
  m_b :: real
  m_c :: real
  m_d :: real
  m_e :: real
  m_f :: real

definition translated :: "matrix2d \<Rightarrow> real \<Rightarrow> real \<Rightarrow> matrix2d" where
  "translated m x y =
     m\<lparr>m_e := m_e m + m_a m * x + m_c m * y, m_f := m_f m + m_b m * x + m_d m * y\<rparr>"

text \<open>
  The operations a painter performs on its host, and the state of the drawing surface
  \<open>ctx\<close> they act on. \<open>calls\<close> lists every operation performed so far, oldest first (the
  construction of a \<open>Path2D\<close> object included), so that drawing nothing is leaving
  \<open>calls\<close> as it was.
\<close>

datatype host_call =
    NewPath2D "svg_cmd list"
  | SetFillStyle string
  | SetStrokeStyle string
  | SetLineWidth jsnum
  | Translate jsnum jsnum
  | Fill "svg_cmd list"
  | Stroke "svg_cmd list"

record ctx =
  fillStyle :: string
  strokeStyle :: string
  lineWidth :: real
  transform :: matrix2d
  calls :: "host_call list"

text \<open>
  The surface, after the canvas interface of the web platform: a colour is assigned as given (the
  painters only assign the colour name \<open>black\<close>); assigning a line width that is zero,
  negative, infinite or \<open>NaN\<close> leaves the line width as it was; \<open>translate\<close> with an
  infinite or \<open>NaN\<close> argument leaves the transformation as it was.
\<close>

definition new_Path2D :: "svg_cmd list \<Rightarrow> ctx \<Rightarrow> svg_cmd list \<times> ctx" where
  "new_Path2D d c = (d, c\<lparr>calls := calls c @ [NewPath2D d]\<rparr>)"

definition set_strokeStyle :: "string \<Rightarrow> ctx \<Rightarrow> ctx" where
  "set_strokeStyle s c = c\<lparr>strokeStyle := s, calls := calls c @ [SetStrokeStyle s]\<rparr>"

definition set_lineWidth :: "jsnum \<Rightarrow> ctx \<Rightarrow> ctx" where
  "set_lineWidth v c =
     (case v of
        Fin x \<Rightarrow> if 0 < x then c\<lparr>lineWidth := x, calls := calls c @ [SetLineWidth v]\<rparr>
                 else c\<lparr>calls := calls c @ [SetLineWidth v]\<rparr>
      | _ \<Rightarrow> c\<lparr>calls := calls c @ [SetLineWidth v]\<rparr>)"

definition translate :: "jsnum \<Rightarrow> jsnum \<Rightarrow> ctx \<Rightarrow> ctx" where
  "translate x y c =
     (case (x, y) of
        (Fin a, Fin b) \<Rightarrow>
          c\<lparr>transform := translated (transform c) a b, calls := calls c @ [Translate x y]\<rparr>
      | _ \<Rightarrow> c\<lparr>calls := calls c @ [Translate x y]\<rparr>)"

definition stroke :: "svg_cmd list \<Rightarrow> ctx \<Rightarrow> ctx" where
  "stroke path c = c\<lparr>calls := calls c @ [Stroke path]\<rparr>"

text \<open>The size of the element, as the host passes it to \<open>paint\<close>.\<close>

record paint_size =
  width :: jsnum
  height :: jsnum

text \<open>The method \<open>paint(ctx, size, props)\<close> of the painter registered as \<open>iborder-s\<close>.\<close>

definition iborder_s_paint :: "ctx \<Rightarrow> paint_size \<Rightarrow> (string \<rightharpoonup> css_value) \<Rightarrow> ctx" where
  "iborder_s_paint c sz props =
     (let strokeWidth = parseCSSLength (props ''--iborder-width'') (Fin 2);
          radius = parseCSSLength (props ''--iborder-radius'') (Fin 10);
          strokeColor = ''black''
      in if js_le strokeWidth (Fin 0) then c
         else
           let halfStroke = js_div strokeWidth (Fin 2);
               adjustedWidth = js_max (Fin 0) (js_sub (width sz) strokeWidth);
               adjustedHeight = js_max (Fin 0) (js_sub (height sz) strokeWidth);
               adjustedRadius = js_max (Fin 0) (js_sub radius halfStroke);
               svgPathString =
                 generateiOSRoundedRectPath adjustedWidth adjustedHeight adjustedRadius;
               (path, c1) = new_Path2D svgPathString c;
               c2 = set_strokeStyle strokeColor c1;
               c3 = set_lineWidth strokeWidth c2;
               c4 = translate halfStroke halfStroke c3
           in stroke path c4)"

text \<open>The method \<open>paint(ctx, size, props)\<close> of the painter registered as \<open>iborder\<close>.\<close>

definition set_fillStyle :: "string \<Rightarrow> ctx \<Rightarrow> ctx" where
  "set_fillStyle s c = c\<lparr>fillStyle := s, calls := calls c @ [SetFillStyle s]\<rparr>"

definition fill_path :: "svg_cmd list \<Rightarrow> ctx \<Rightarrow> ctx" where
  "fill_path path c = c\<lparr>calls := calls c @ [Fill path]\<rparr>"

definition iborder_paint :: "ctx \<Rightarrow> paint_size \<Rightarrow> (string \<rightharpoonup> css_value) \<Rightarrow> ctx" where
  "iborder_paint c sz props =
     (let radius = parseCSSLength (props ''--iborder-radius'') (Fin 10);
          fillColor = ''black'';
          svgPathString = generateiOSRoundedRectPath (width sz) (height sz) radius;
          (path, c1) = new_Path2D svgPathString c;
          c2 = set_fillStyle fillColor c1
      in fill_path path c2)"

text \<open>A surface in the default state of a canvas, on which nothing has been done yet.\<close>

definition initial_ctx :: ctx where
  "initial_ctx =
     \<lparr>fillStyle = ''#000000'', strokeStyle = ''#000000'', lineWidth = 1,
      transform = \<lparr>m_a = 1, m_b = 0, m_c = 0, m_d = 1, m_e = 0, m_f = 0\<rparr>,
      calls = []\<rparr>"

section \<open>Facts about numbers\<close>

lemma js_eq_Fin0: "js_eq x (Fin 0) = (x = Fin 0)"
  by (auto simp: js_eq_def isNaN_def)

lemma js_lt_not_zero: "js_lt (Fin 0) x \<Longrightarrow> \<not> js_eq x (Fin 0)"
  by (cases x) (auto simp: js_eq_def isNaN_def)

lemma js_lt_not_le: "js_lt (Fin 0) x \<Longrightarrow> \<not> js_le x (Fin 0)"
  by (cases x) auto

lemma js_max0_Fin: "js_max (Fin 0) (Fin v) = Fin (max 0 v)"
  by (simp add: js_max_def isNaN_def max_def)

section \<open>The clamped radius\<close>

lemma maxRadius_Fin:
  "maxRadius (Fin w) (Fin h) = Fin (min (w / 2) (h / 2))"
  by (simp add: maxRadius_def js_min_def isNaN_def min_def)

lemma effectiveRadius_Fin:
  "effectiveRadius (Fin w) (Fin h) (Fin radius) =
     Fin (max 0 (min radius (min (w / 2) (h / 2))))"
  by (simp add: effectiveRadius_def maxRadius_Fin js_min_def js_max_def isNaN_def
      min_def max_def)

lemma effectiveRadius_flat:
  assumes "min w h = 0" and "radius \<noteq> NaN"
  shows "effectiveRadius (Fin w) (Fin h) radius = Fin 0"
proof -
  have "min (w / 2) (h / 2) = 0"
    using assms(1) by (auto simp: min_def split: if_splits)
  then have m: "maxRadius (Fin w) (Fin h) = Fin 0"
    by (simp add: maxRadius_Fin)
  show ?thesis
    using assms(2)
    by (cases radius) (simp_all add: effectiveRadius_def m js_min_def js_max_def isNaN_def)
qed

text \<open>
  C1. For every width and height that are at least 0 and every finite radius, the
  clamped radius \<open>r\<close> that \<open>generateiOSRoundedRectPath\<close> computes is
  \<open>max 0 (min radius (min (width / 2) (height / 2)))\<close>, and it lies between 0 and
  \<open>min width height / 2\<close>.
\<close>

theorem effectiveRadius_clamped:
  assumes "0 \<le> w" and "0 \<le> h"
  shows "effectiveRadius (Fin w) (Fin h) (Fin radius)
           = Fin (max 0 (min radius (min (w / 2) (h / 2))))
         \<and> 0 \<le> max 0 (min radius (min (w / 2) (h / 2)))
         \<and> max 0 (min radius (min (w / 2) (h / 2))) \<le> min w h / 2"
proof -
  let ?r = "max 0 (min radius (min (w / 2) (h / 2)))"
  have "0 \<le> ?r" by simp
  moreover have "?r \<le> min w h / 2"
    using assms by (simp add: min_def max_def)
  ultimately show ?thesis
    by (simp add: effectiveRadius_Fin)
qed

text \<open>C1 at width 50, height 50 and radius 1000: the clamped radius is 25.\<close>

theorem effectiveRadius_clamped_witness:
  "(0::real) \<le> 50 \<and> (0::real) \<le> 50
   \<and> effectiveRadius (Fin 50) (Fin 50) (Fin 1000) = Fin 25
   \<and> (25::real) \<le> min 50 50 / 2"
  using effectiveRadius_clamped [of 50 50 1000] by simp

section \<open>The degenerate rectangle\<close>

lemma rect_path:
  "effectiveRadius wd ht radius = Fin 0 \<Longrightarrow>
   generateiOSRoundedRectPath wd ht radius =
     [SvgM (Fin 0) (Fin 0), SvgH wd, SvgV ht, SvgH (Fin 0), SvgZ]"
  by (simp add: generateiOSRoundedRectPath_def js_eq_Fin0 Let_def)

text \<open>
  C2. Whenever the clamped radius is 0, and in particular for every requested radius
  (other than \<open>NaN\<close>) when the smaller of width and height is 0, the path is exactly
  \<open>M0 0 H width V height H0 Z\<close>: a move to the origin, lines to \<open>(width, 0)\<close>,
  \<open>(width, height)\<close> and \<open>(0, height)\<close>, and a close, with no curve command. The
  hypothesis that width and height are at least 0 is not needed.
\<close>

theorem rectangle_when_radius_zero:
  assumes "effectiveRadius (Fin w) (Fin h) radius = Fin 0
           \<or> (min w h = 0 \<and> radius \<noteq> NaN)"
  shows "generateiOSRoundedRectPath (Fin w) (Fin h) radius =
           [SvgM (Fin 0) (Fin 0), SvgH (Fin w), SvgV (Fin h), SvgH (Fin 0), SvgZ]
         \<and> contour (generateiOSRoundedRectPath (Fin w) (Fin h) radius) =
           [MoveTo (Fin 0, Fin 0), LineTo (Fin w, Fin 0), LineTo (Fin w, Fin h),
            LineTo (Fin 0, Fin h), ClosePath]
         \<and> filter is_curve (generateiOSRoundedRectPath (Fin w) (Fin h) radius) = []"
proof -
  have "effectiveRadius (Fin w) (Fin h) radius = Fin 0"
    using assms effectiveRadius_flat by blast
  then have "generateiOSRoundedRectPath (Fin w) (Fin h) radius =
      [SvgM (Fin 0) (Fin 0), SvgH (Fin w), SvgV (Fin h), SvgH (Fin 0), SvgZ]"
    by (rule rect_path)
  then show ?thesis
    by (simp add: contour_def)
qed

text \<open>
  C2 at a 100 by 50 rectangle with the negative radius -4, and at a rectangle of width 0
  with radius 7.
\<close>

theorem rectangle_when_radius_zero_witness:
  "effectiveRadius (Fin 100) (Fin 50) (Fin (- 4)) = Fin 0
   \<and> generateiOSRoundedRectPath (Fin 100) (Fin 50) (Fin (- 4)) =
       [SvgM (Fin 0) (Fin 0), SvgH (Fin 100), SvgV (Fin 50), SvgH (Fin 0), SvgZ]
   \<and> min (0::real) 50 = 0 \<and> Fin 7 \<noteq> NaN
   \<and> generateiOSRoundedRectPath (Fin 0) (Fin 50) (Fin 7) =
       [SvgM (Fin 0) (Fin 0), SvgH (Fin 0), SvgV (Fin 50), SvgH (Fin 0), SvgZ]"
proof -
  have a: "effectiveRadius (Fin 100) (Fin 50) (Fin (- 4)) = Fin 0"
    by (simp add: effectiveRadius_Fin)
  have b: "min (0::real) 50 = 0 \<and> Fin 7 \<noteq> NaN"
    by simp
  show ?thesis
    using a b rectangle_when_radius_zero [of 100 50 "Fin (- 4)"]
      rectangle_when_radius_zero [of 0 50 "Fin 7"]
    by simp
qed

section \<open>The rounded contour\<close>

text \<open>
  C3, as stated, fails: at width 100, height 100 and radius 10 the path does not have 8
  curve commands and 4 line commands; it has 12 and 3.
\<close>

theorem curve_count_counterexample:
  "\<not> (length (filter is_curve (generateiOSRoundedRectPath (Fin 100) (Fin 100) (Fin 10))) = 8
      \<and> length (filter is_line (generateiOSRoundedRectPath (Fin 100) (Fin 100) (Fin 10))) = 4
      \<and> length (filter is_close (generateiOSRoundedRectPath (Fin 100) (Fin 100) (Fin 10))) = 1)"
  by (simp add: generateiOSRoundedRectPath_def effectiveRadius_Fin js_eq_Fin0 Let_def)

text \<open>
  C3, amended. Whenever the clamped radius is positive, the path is a move, then for each
  of the four corners three cubic curves, the corners being joined by the three line
  commands \<open>H\<close>, \<open>V\<close>, \<open>H\<close>, then a close (which draws the left edge): 12 curve
  commands, 3 line commands and one close.
\<close>

theorem three_curves_per_corner:
  assumes "js_lt (Fin 0) (effectiveRadius wd ht radius)"
  shows "map cmd_letter (generateiOSRoundedRectPath wd ht radius) = ''MCCCHCCCVCCCHCCCZ''
         \<and> length (filter is_curve (generateiOSRoundedRectPath wd ht radius)) = 12
         \<and> length (filter is_line (generateiOSRoundedRectPath wd ht radius)) = 3
         \<and> length (filter is_close (generateiOSRoundedRectPath wd ht radius)) = 1"
proof -
  have "\<not> js_eq (effectiveRadius wd ht radius) (Fin 0)"
    using assms by (rule js_lt_not_zero)
  then show ?thesis
    by (simp add: generateiOSRoundedRectPath_def Let_def)
qed

text \<open>C3, amended, at width 100, height 100 and radius 10.\<close>

theorem three_curves_per_corner_witness:
  "js_lt (Fin 0) (effectiveRadius (Fin 100) (Fin 100) (Fin 10))
   \<and> map cmd_letter (generateiOSRoundedRectPath (Fin 100) (Fin 100) (Fin 10))
       = ''MCCCHCCCVCCCHCCCZ''
   \<and> length (filter is_curve (generateiOSRoundedRectPath (Fin 100) (Fin 100) (Fin 10))) = 12
   \<and> length (filter is_line (generateiOSRoundedRectPath (Fin 100) (Fin 100) (Fin 10))) = 3"
proof -
  have h: "js_lt (Fin 0) (effectiveRadius (Fin 100) (Fin 100) (Fin 10))"
    by (simp add: effectiveRadius_Fin)
  show ?thesis
    using h three_curves_per_corner [OF h] by simp
qed

lemma exact_path_instance:
  "generateiOSRoundedRectPath wd ht radius =
     roundedRectPath_with js_mul js_sub js_div Fin wd ht radius"
  by (simp add: generateiOSRoundedRectPath_def roundedRectPath_with_def effectiveRadius_def
      maxRadius_def Let_def)

lemma with_first_curve:
  assumes "\<not> js_eq (js_max (lit 0) (js_min radius (js_min (dv wd (lit 2)) (dv ht (lit 2)))))
             (lit 0)"
  shows "start_point (roundedRectPath_with mul sub dv lit wd ht radius)
           = Some (Fin 0,
                   js_max (lit 0) (js_min radius (js_min (dv wd (lit 2)) (dv ht (lit 2)))))
     \<and> first_curve_end (roundedRectPath_with mul sub dv lit wd ht radius)
           = Some (mul (js_max (lit 0) (js_min radius (js_min (dv wd (lit 2)) (dv ht (lit 2)))))
                     (lit 0.0681),
                   mul (js_max (lit 0) (js_min radius (js_min (dv wd (lit 2)) (dv ht (lit 2)))))
                     (lit 0.3413))"
  using assms by (simp add: roundedRectPath_with_def Let_def)

lemmas round_eval = round_double_def rne_def Let_def

lemma round_double_0: "round_double 0 = Fin 0"
  by (simp add: round_eval)

lemma round_double_2: "round_double 2 = Fin 2"
  by (simp add: round_eval)

lemma round_double_50: "round_double 50 = Fin 50"
  by (simp add: round_eval)

lemma double_radius_100_100_10:
  "js_max (round_double 0) (js_min (Fin 10)
     (js_min (fl_div (Fin 100) (round_double 2)) (fl_div (Fin 100) (round_double 2)))) = Fin 10"
  by (simp add: round_double_0 round_double_2 round_double_50 fl_div_def fl_def js_min_def
      js_max_def isNaN_def)

lemma double_path_100_100_10:
  "start_point (generateiOSRoundedRectPath_double (Fin 100) (Fin 100) (Fin 10))
     = Some (Fin 0, Fin 10)
   \<and> first_curve_end (generateiOSRoundedRectPath_double (Fin 100) (Fin 100) (Fin 10))
     = Some (Fin (6133902692478615 / 2 ^ 53), Fin (7685392764107751 / 2 ^ 51))"
proof -
  have nz: "\<not> js_eq (js_max (round_double 0) (js_min (Fin 10)
      (js_min (fl_div (Fin 100) (round_double 2)) (fl_div (Fin 100) (round_double 2)))))
      (round_double 0)"
    by (subst double_radius_100_100_10) (simp add: round_double_0 js_eq_def isNaN_def)
  have pc: "fl_mul (Fin 10) (round_double 0.0681) = Fin (6133902692478615 / 2 ^ 53)"
    by (simp add: fl_mul_def fl_def round_eval)
  have pd: "fl_mul (Fin 10) (round_double 0.3413) = Fin (7685392764107751 / 2 ^ 51)"
    by (simp add: fl_mul_def fl_def round_eval)
  from with_first_curve [where mul = fl_mul and sub = fl_sub and dv = fl_div
      and lit = round_double and wd = "Fin 100" and ht = "Fin 100" and radius = "Fin 10", OF nz]
    pc pd
  show ?thesis
    by (simp add: generateiOSRoundedRectPath_double_def double_radius_100_100_10)
qed

text \<open>
  C4, as stated, fails: the first curve of the path for width 100, height 100 and radius
  10 does not end at \<open>(6.81, 34.13)\<close>, neither in double arithmetic nor in exact
  arithmetic.
\<close>

theorem first_curve_end_counterexample:
  "first_curve_end (generateiOSRoundedRectPath_double (Fin 100) (Fin 100) (Fin 10))
     \<noteq> Some (round_double 6.81, round_double 34.13)
   \<and> first_curve_end (generateiOSRoundedRectPath (Fin 100) (Fin 100) (Fin 10))
     \<noteq> Some (Fin 6.81, Fin 34.13)"
proof -
  have x: "round_double 6.81 = Fin (7667378365598269 / 2 ^ 50)"
    by (simp add: round_eval)
  have 1: "first_curve_end (generateiOSRoundedRectPath_double (Fin 100) (Fin 100) (Fin 10))
     \<noteq> Some (round_double 6.81, round_double 34.13)"
    using double_path_100_100_10 x by simp
  have 2: "first_curve_end (generateiOSRoundedRectPath (Fin 100) (Fin 100) (Fin 10))
     \<noteq> Some (Fin 6.81, Fin 34.13)"
    by (simp add: generateiOSRoundedRectPath_def effectiveRadius_Fin js_eq_Fin0 Let_def)
  from 1 2 show ?thesis by blast
qed

text \<open>
  C4, amended. In double arithmetic the path for width 100, height 100 and radius 10
  begins at \<open>(0, 10)\<close>, and its first curve ends at the two doubles \<open>10 * 0.0681\<close> and
  \<open>10 * 0.3413\<close>. The first is \<open>6133902692478615 / 2 ^ 53\<close>, the double written
  \<open>0.6809999999999999\<close>, which is not the double nearest to 0.681; the second is
  \<open>7685392764107751 / 2 ^ 51\<close>, the double nearest to 3.413.
\<close>

theorem first_curve_end_100_100_10:
  "start_point (generateiOSRoundedRectPath_double (Fin 100) (Fin 100) (Fin 10))
     = Some (Fin 0, Fin 10)
   \<and> first_curve_end (generateiOSRoundedRectPath_double (Fin 100) (Fin 100) (Fin 10))
     = Some (Fin (6133902692478615 / 2 ^ 53), Fin (7685392764107751 / 2 ^ 51))
   \<and> round_double 0.6809999999999999 = Fin (6133902692478615 / 2 ^ 53)
   \<and> round_double 3.413 = Fin (7685392764107751 / 2 ^ 51)
   \<and> round_double 0.681 \<noteq> Fin (6133902692478615 / 2 ^ 53)"
proof -
  have a: "round_double 0.6809999999999999 = Fin (6133902692478615 / 2 ^ 53)"
    by (simp add: round_eval)
  have b: "round_double 3.413 = Fin (7685392764107751 / 2 ^ 51)"
    by (simp add: round_eval)
  have c: "round_double 0.681 \<noteq> Fin (6133902692478615 / 2 ^ 53)"
    by (simp add: round_eval)
  from double_path_100_100_10 a b c show ?thesis
    by blast
qed

text \<open>
  C5. Whenever the clamped radius \<open>r\<close> is positive, the contour starts at \<open>(0, r)\<close> and the
  path is the one written below: with \<open>a = 0.65 r\<close>, \<open>b = 0.475 r\<close>, \<open>c = 0.0681 r\<close>,
  \<open>d = 0.3413 r\<close>, \<open>e = 0.1280 r\<close> and \<open>f = 0.2237 r\<close>, every coordinate of a curve is 0,
  \<open>r\<close> or one of these six magnitudes, or what is left of the width or of the height
  after taking one of them away. No other factor of the radius occurs.
\<close>

theorem corner_magnitudes:
  assumes "effectiveRadius (Fin w) (Fin h) radius = Fin r" and "0 < r"
  shows "start_point (generateiOSRoundedRectPath (Fin w) (Fin h) radius) = Some (Fin 0, Fin r)
    \<and> generateiOSRoundedRectPath (Fin w) (Fin h) radius =
       (let a = Fin (0.65 * r); b = Fin (0.475 * r); c = Fin (0.0681 * r);
            d = Fin (0.3413 * r); e = Fin (0.1280 * r); f = Fin (0.2237 * r);
            wa = Fin (w - 0.65 * r); wb = Fin (w - 0.475 * r); wc = Fin (w - 0.0681 * r);
            wd = Fin (w - 0.3413 * r); we = Fin (w - 0.1280 * r); wf = Fin (w - 0.2237 * r);
            ha = Fin (h - 0.65 * r); hb = Fin (h - 0.475 * r); hc = Fin (h - 0.0681 * r);
            hd = Fin (h - 0.3413 * r); he = Fin (h - 0.1280 * r); hf = Fin (h - 0.2237 * r)
        in [SvgM (Fin 0) (Fin r),
            SvgC (Fin 0) a (Fin 0) b c d,
            SvgC e f f e d c,
            SvgC b (Fin 0) a (Fin 0) (Fin r) (Fin 0),
            SvgH (Fin (w - r)),
            SvgC wa (Fin 0) wb (Fin 0) wd c,
            SvgC wf e we f wc d,
            SvgC (Fin w) b (Fin w) a (Fin w) (Fin r),
            SvgV (Fin (h - r)),
            SvgC (Fin w) ha (Fin w) hb wc hd,
            SvgC we hf wf he wd hc,
            SvgC wb (Fin h) wa (Fin h) (Fin (w - r)) (Fin h),
            SvgH (Fin r),
            SvgC a (Fin h) b (Fin h) d hc,
            SvgC f he e hf c hd,
            SvgC (Fin 0) hb (Fin 0) ha (Fin 0) (Fin (h - r)),
            SvgZ])
    \<and> set (curve_coords (generateiOSRoundedRectPath (Fin w) (Fin h) radius))
        \<subseteq> set (mirrored [0, 0.65, 0.475, 0.0681, 0.3413, 0.1280, 0.2237, 1] w h r)"
  (is "?start \<and> ?path \<and> ?coords")
proof -
  have p: ?path
    using assms by (simp add: generateiOSRoundedRectPath_def js_eq_Fin0 Let_def)
  have s: ?start
    by (simp add: p Let_def)
  have c: ?coords
    by (simp add: p Let_def mirrored_def)
  from s p c show ?thesis by blast
qed

text \<open>C5 at width 100, height 100 and radius 10, where the clamped radius is 10.\<close>

theorem corner_magnitudes_witness:
  "effectiveRadius (Fin 100) (Fin 100) (Fin 10) = Fin 10 \<and> (0::real) < 10
   \<and> start_point (generateiOSRoundedRectPath (Fin 100) (Fin 100) (Fin 10))
       = Some (Fin 0, Fin 10)
   \<and> set (curve_coords (generateiOSRoundedRectPath (Fin 100) (Fin 100) (Fin 10)))
       \<subseteq> set (mirrored [0, 0.65, 0.475, 0.0681, 0.3413, 0.1280, 0.2237, 1] 100 100 10)"
proof -
  have h: "effectiveRadius (Fin 100) (Fin 100) (Fin 10) = Fin 10"
    by (simp add: effectiveRadius_Fin)
  have r: "(0::real) < 10"
    by simp
  show ?thesis
    using h r corner_magnitudes [OF h r] by blast
qed

section \<open>Lengths of custom properties\<close>

lemmas parseFloat_eval =
  parseFloat_def is_ws_def is_digit_def digit_val_def digits_val_def pow10_def
  exponent_part_def

lemma parseCSSLength_None:
  "parseCSSLength None d = (if isNaN d then d else js_max (Fin 0) d)"
  by (simp add: parseCSSLength_def)

lemma parseCSSLength_Numeric:
  "parseCSSLength (Some (Numeric n)) d = (if isNaN n then d else js_max (Fin 0) n)"
  by (simp add: parseCSSLength_def)

lemma parseCSSLength_Text:
  "parseCSSLength (Some (Text s)) d =
     (if isNaN (parseFloat s) then d else js_max (Fin 0) (parseFloat s))"
  by (simp add: parseCSSLength_def)


lemma parseCSSLength_None_nonneg: "js_le (Fin 0) e \<Longrightarrow> parseCSSLength None e = e"
  by (cases e) (simp_all add: parseCSSLength_None isNaN_def js_max_def)


text \<open>
  C8. A numeric magnitude is used as it is when it is not negative, and gives 0 when it
  is negative. A string is read by \<open>parseFloat\<close>, which takes its leading number and
  ignores the text after it (\<open>12.5px\<close> gives 12.5); a parsed number that is negative
  gives 0 (\<open>-5px\<close> gives 0, whatever the default). A string with no leading number gives
  the default, for every default. An absent property gives the default, for every
  default that is not negative, as are the defaults 2 and 10 of the three calls.
\<close>

theorem parseCSSLength_resolves:
  "(0 \<le> v \<longrightarrow> parseCSSLength (Some (Numeric (Fin v))) d = Fin v)
   \<and> (v' < 0 \<longrightarrow> parseCSSLength (Some (Numeric (Fin v'))) d = Fin 0)
   \<and> (parseFloat s = Fin x \<longrightarrow> parseCSSLength (Some (Text s)) d = Fin (max 0 x))
   \<and> parseFloat ''12.5px'' = Fin 12.5
   \<and> parseCSSLength (Some (Text ''12.5px'')) d = Fin 12.5
   \<and> parseFloat ''-5px'' = Fin (- 5)
   \<and> parseCSSLength (Some (Text ''-5px'')) d = Fin 0
   \<and> (js_le (Fin 0) e \<longrightarrow> parseCSSLength None e = e)
   \<and> parseCSSLength None (Fin 2) = Fin 2
   \<and> parseCSSLength None (Fin 10) = Fin 10
   \<and> (parseFloat t = NaN \<longrightarrow> parseCSSLength (Some (Text t)) d = d)"
proof -
  have pf1: "parseFloat ''12.5px'' = Fin 12.5"
    by (simp add: parseFloat_eval)
  have pf2: "parseFloat ''-5px'' = Fin (- 5)"
    by (simp add: parseFloat_eval)
  have a: "0 \<le> v \<longrightarrow> parseCSSLength (Some (Numeric (Fin v))) d = Fin v"
    by (simp add: parseCSSLength_Numeric isNaN_def js_max0_Fin)
  have a': "v' < 0 \<longrightarrow> parseCSSLength (Some (Numeric (Fin v'))) d = Fin 0"
    by (simp add: parseCSSLength_Numeric isNaN_def js_max0_Fin)
  have b: "parseFloat s = Fin x \<longrightarrow> parseCSSLength (Some (Text s)) d = Fin (max 0 x)"
    by (simp add: parseCSSLength_Text isNaN_def js_max0_Fin)
  have c: "parseCSSLength (Some (Text ''12.5px'')) d = Fin 12.5"
    by (simp add: parseCSSLength_Text pf1 isNaN_def js_max0_Fin)
  have c': "parseCSSLength (Some (Text ''-5px'')) d = Fin 0"
    by (simp add: parseCSSLength_Text pf2 isNaN_def js_max0_Fin)
  have f: "js_le (Fin 0) e \<longrightarrow> parseCSSLength None e = e"
    by (simp add: parseCSSLength_None_nonneg)
  have f2: "parseCSSLength None (Fin 2) = Fin 2"
    by (simp add: parseCSSLength_None_nonneg)
  have f10: "parseCSSLength None (Fin 10) = Fin 10"
    by (simp add: parseCSSLength_None_nonneg)
  have g: "parseFloat t = NaN \<longrightarrow> parseCSSLength (Some (Text t)) d = d"
    by (simp add: parseCSSLength_Text isNaN_def)
  from a a' b pf1 c pf2 c' f f2 f10 g show ?thesis by blast
qed

text \<open>
  C8 at the numeric values 3 and -3, the strings \<open>7.25em\<close> and \<open>auto\<close>, and the
  defaults 10 and 2.
\<close>

theorem parseCSSLength_resolves_witness:
  "(0::real) \<le> 3 \<and> parseCSSLength (Some (Numeric (Fin 3))) (Fin 10) = Fin 3
   \<and> (- 3::real) < 0 \<and> parseCSSLength (Some (Numeric (Fin (- 3)))) (Fin 10) = Fin 0
   \<and> parseFloat ''7.25em'' = Fin 7.25
   \<and> parseCSSLength (Some (Text ''7.25em'')) (Fin 10) = Fin 7.25
   \<and> js_le (Fin 0) (Fin 2) \<and> parseCSSLength None (Fin 2) = Fin 2
   \<and> parseFloat ''auto'' = NaN
   \<and> parseCSSLength (Some (Text ''auto'')) (Fin 10) = Fin 10"
proof -
  have p: "parseFloat ''7.25em'' = Fin 7.25"
    by (simp add: parseFloat_eval)
  have q: "parseFloat ''auto'' = NaN"
    by (simp add: parseFloat_eval)
  show ?thesis
    using p q
      parseCSSLength_resolves [where v = 3 and v' = "- 3" and d = "Fin 10"
        and s = "''7.25em''" and x = "7.25" and e = "Fin 2" and t = "''auto''"]
    by simp
qed



section \<open>The inner-stroke painter\<close>

lemma paint_draws:
  assumes "\<not> js_le (parseCSSLength (props ''--iborder-width'') (Fin 2)) (Fin 0)"
  shows "iborder_s_paint c sz props =
    (let strokeWidth = parseCSSLength (props ''--iborder-width'') (Fin 2);
         radius = parseCSSLength (props ''--iborder-radius'') (Fin 10);
         halfStroke = js_div strokeWidth (Fin 2);
         p = generateiOSRoundedRectPath
               (js_max (Fin 0) (js_sub (width sz) strokeWidth))
               (js_max (Fin 0) (js_sub (height sz) strokeWidth))
               (js_max (Fin 0) (js_sub radius halfStroke))
     in stroke p (translate halfStroke halfStroke (set_lineWidth strokeWidth
          (set_strokeStyle ''black'' (snd (new_Path2D p c))))))"
  using assms by (simp add: iborder_s_paint_def Let_def new_Path2D_def)

lemma calls_set_lineWidth: "calls (set_lineWidth v c) = calls c @ [SetLineWidth v]"
  by (simp add: set_lineWidth_def split: jsnum.splits)

lemma calls_translate: "calls (translate x y c) = calls c @ [Translate x y]"
  by (simp add: translate_def split: jsnum.splits)

lemma lineWidth_translate: "lineWidth (translate x y c) = lineWidth c"
  by (simp add: translate_def split: jsnum.splits)

lemma transform_set_lineWidth: "transform (set_lineWidth v c) = transform c"
  by (simp add: set_lineWidth_def split: jsnum.splits)

text \<open>
  C6. For every surface, size and property lookup, if the resolved stroke width is at
  most 0 then the painter returns the surface as it received it: no operation is added
  to \<open>calls\<close> (no path is constructed, nothing is stroked) and no style, line width or
  transformation has changed.
\<close>

theorem no_stroke_no_drawing:
  assumes "js_le (parseCSSLength (props ''--iborder-width'') (Fin 2)) (Fin 0)"
  shows "iborder_s_paint c sz props = c"
  using assms by (simp add: iborder_s_paint_def Let_def)

text \<open>C6 at a 100 by 50 element whose \<open>--iborder-width\<close> is \<open>0px\<close>.\<close>

theorem no_stroke_no_drawing_witness:
  "js_le (parseCSSLength ([''--iborder-width'' \<mapsto> Text ''0px''] ''--iborder-width'') (Fin 2))
     (Fin 0)
   \<and> iborder_s_paint initial_ctx \<lparr>width = Fin 100, height = Fin 50\<rparr>
        [''--iborder-width'' \<mapsto> Text ''0px''] = initial_ctx"
proof -
  have p: "parseFloat ''0px'' = Fin 0"
    by (simp add: parseFloat_eval)
  have h: "js_le (parseCSSLength ([''--iborder-width'' \<mapsto> Text ''0px''] ''--iborder-width'')
             (Fin 2)) (Fin 0)"
    by (simp add: parseCSSLength_Text p isNaN_def js_max0_Fin)
  show ?thesis
    using h no_stroke_no_drawing [where props = "[''--iborder-width'' \<mapsto> Text ''0px'']", OF h]
    by simp
qed

text \<open>
  C7. For every size and every resolved radius and stroke width, the stroke width being
  positive, the painter performs exactly these operations, in this order: it constructs
  the path \<open>generateiOSRoundedRectPath(max(0, width - strokeWidth),
  max(0, height - strokeWidth), max(0, radius - strokeWidth / 2))\<close>, assigns the stroke
  colour, assigns \<open>strokeWidth\<close> to the line width, translates by
  \<open>(strokeWidth / 2, strokeWidth / 2)\<close> and strokes that path. On finite numbers the
  three arguments of the path are the real \<open>max 0 (w - s)\<close>, \<open>max 0 (h - s)\<close> and
  \<open>max 0 (rad - s / 2)\<close>, and the line width of the surface is \<open>s\<close> afterwards.
\<close>

theorem inset_stroke_draws:
  assumes "parseCSSLength (props ''--iborder-width'') (Fin 2) = strokeWidth"
    and "parseCSSLength (props ''--iborder-radius'') (Fin 10) = radius"
    and "js_lt (Fin 0) strokeWidth"
  shows "calls (iborder_s_paint c sz props) =
           calls c @
           [NewPath2D (generateiOSRoundedRectPath
                         (js_max (Fin 0) (js_sub (width sz) strokeWidth))
                         (js_max (Fin 0) (js_sub (height sz) strokeWidth))
                         (js_max (Fin 0) (js_sub radius (js_div strokeWidth (Fin 2))))),
            SetStrokeStyle ''black'',
            SetLineWidth strokeWidth,
            Translate (js_div strokeWidth (Fin 2)) (js_div strokeWidth (Fin 2)),
            Stroke (generateiOSRoundedRectPath
                         (js_max (Fin 0) (js_sub (width sz) strokeWidth))
                         (js_max (Fin 0) (js_sub (height sz) strokeWidth))
                         (js_max (Fin 0) (js_sub radius (js_div strokeWidth (Fin 2)))))]
         \<and> (width sz = Fin w \<and> height sz = Fin h \<and> strokeWidth = Fin s \<and> radius = Fin rad
              \<longrightarrow>
              generateiOSRoundedRectPath
                         (js_max (Fin 0) (js_sub (width sz) strokeWidth))
                         (js_max (Fin 0) (js_sub (height sz) strokeWidth))
                         (js_max (Fin 0) (js_sub radius (js_div strokeWidth (Fin 2))))
              = generateiOSRoundedRectPath (Fin (max 0 (w - s))) (Fin (max 0 (h - s)))
                  (Fin (max 0 (rad - s / 2)))
              \<and> js_div strokeWidth (Fin 2) = Fin (s / 2)
              \<and> lineWidth (iborder_s_paint c sz props) = s)"
  (is "?log \<and> (?finite \<longrightarrow> ?args \<and> ?half \<and> ?lw)")
proof -
  have nle: "\<not> js_le (parseCSSLength (props ''--iborder-width'') (Fin 2)) (Fin 0)"
    using assms(1,3) js_lt_not_le by blast
  have 1: ?log
    using assms(1,2)
    by (simp add: paint_draws [where props = props, OF nle] Let_def stroke_def
        calls_translate calls_set_lineWidth set_strokeStyle_def new_Path2D_def)
  have 2: ?lw if "strokeWidth = Fin s"
    using assms(1,3) that
    by (simp add: paint_draws [where props = props, OF nle] Let_def stroke_def
        lineWidth_translate set_lineWidth_def)
  have 3: "?args \<and> ?half" if ?finite
    using that by (simp add: js_max0_Fin)
  from 1 2 3 show ?thesis by blast
qed

text \<open>
  C7 at a 100 by 50 element with \<open>--iborder-width: 4px\<close> and the numeric radius 12: the
  path is that of a 96 by 46 rectangle of radius 10, the line width is 4 and the
  translation is by \<open>(2, 2)\<close>.
\<close>

theorem inset_stroke_draws_witness:
  "parseCSSLength ([''--iborder-width'' \<mapsto> Text ''4px'',
                    ''--iborder-radius'' \<mapsto> Numeric (Fin 12)] ''--iborder-width'') (Fin 2) = Fin 4
   \<and> parseCSSLength ([''--iborder-width'' \<mapsto> Text ''4px'',
                    ''--iborder-radius'' \<mapsto> Numeric (Fin 12)] ''--iborder-radius'') (Fin 10) = Fin 12
   \<and> js_lt (Fin 0) (Fin 4)
   \<and> calls (iborder_s_paint initial_ctx \<lparr>width = Fin 100, height = Fin 50\<rparr>
        [''--iborder-width'' \<mapsto> Text ''4px'', ''--iborder-radius'' \<mapsto> Numeric (Fin 12)])
     = [NewPath2D (generateiOSRoundedRectPath (Fin 96) (Fin 46) (Fin 10)),
        SetStrokeStyle ''black'',
        SetLineWidth (Fin 4),
        Translate (Fin 2) (Fin 2),
        Stroke (generateiOSRoundedRectPath (Fin 96) (Fin 46) (Fin 10))]
   \<and> lineWidth (iborder_s_paint initial_ctx \<lparr>width = Fin 100, height = Fin 50\<rparr>
        [''--iborder-width'' \<mapsto> Text ''4px'', ''--iborder-radius'' \<mapsto> Numeric (Fin 12)]) = 4"
proof -
  let ?props = "[''--iborder-width'' \<mapsto> Text ''4px'', ''--iborder-radius'' \<mapsto> Numeric (Fin 12)]"
  have p: "parseFloat ''4px'' = Fin 4"
    by (simp add: parseFloat_eval)
  have a: "parseCSSLength (?props ''--iborder-width'') (Fin 2) = Fin 4"
    by (simp add: parseCSSLength_Text p isNaN_def js_max0_Fin)
  have b: "parseCSSLength (?props ''--iborder-radius'') (Fin 10) = Fin 12"
    by (simp add: parseCSSLength_Numeric isNaN_def js_max0_Fin)
  have c: "js_lt (Fin 0) (Fin 4)"
    by simp
  show ?thesis
    using a b c
      inset_stroke_draws [where props = ?props and strokeWidth = "Fin 4" and radius = "Fin 12"
        and c = initial_ctx and sz = "\<lparr>width = Fin 100, height = Fin 50\<rparr>"
        and w = 100 and h = 50 and s = 4 and rad = 12, OF a b c]
    by (simp add: js_max0_Fin initial_ctx_def)
qed

text \<open>
  C10. Whenever the painter draws (the resolved stroke width is positive), the
  transformation of the surface when \<open>paint\<close> returns is the one the call
  \<open>translate(strokeWidth / 2, strokeWidth / 2)\<close> produced: nothing resets it. For a
  finite stroke width \<open>s\<close> this is the transformation at entry followed by the
  translation by \<open>(s / 2, s / 2)\<close>, and it differs from the transformation at entry
  whenever that one is invertible.
\<close>

theorem transform_left_translated:
  assumes "parseCSSLength (props ''--iborder-width'') (Fin 2) = strokeWidth"
    and "js_lt (Fin 0) strokeWidth"
  shows "transform (iborder_s_paint c sz props)
           = transform (translate (js_div strokeWidth (Fin 2)) (js_div strokeWidth (Fin 2)) c)
         \<and> (strokeWidth = Fin s \<longrightarrow>
              transform (iborder_s_paint c sz props) = translated (transform c) (s / 2) (s / 2)
              \<and> m_e (transform (iborder_s_paint c sz props))
                  = m_e (transform c) + m_a (transform c) * (s / 2) + m_c (transform c) * (s / 2)
              \<and> m_f (transform (iborder_s_paint c sz props))
                  = m_f (transform c) + m_b (transform c) * (s / 2) + m_d (transform c) * (s / 2)
              \<and> (m_a (transform c) * m_d (transform c) \<noteq> m_b (transform c) * m_c (transform c)
                   \<longrightarrow> transform (iborder_s_paint c sz props) \<noteq> transform c))"
proof -
  have nle: "\<not> js_le (parseCSSLength (props ''--iborder-width'') (Fin 2)) (Fin 0)"
    using assms js_lt_not_le by blast
  have 1: "transform (iborder_s_paint c sz props)
           = transform (translate (js_div strokeWidth (Fin 2)) (js_div strokeWidth (Fin 2)) c)"
    using assms(1)
    by (simp add: paint_draws [where props = props, OF nle] Let_def stroke_def translate_def
        transform_set_lineWidth set_strokeStyle_def new_Path2D_def split: jsnum.splits)
  have 2: "transform (iborder_s_paint c sz props) = translated (transform c) (s / 2) (s / 2)"
    if "strokeWidth = Fin s"
    using that by (simp add: 1 translate_def)
  have 3: "transform (iborder_s_paint c sz props) \<noteq> transform c"
    if fin: "strokeWidth = Fin s"
      and det: "m_a (transform c) * m_d (transform c) \<noteq> m_b (transform c) * m_c (transform c)"
  proof
    assume eq: "transform (iborder_s_paint c sz props) = transform c"
    have s: "0 < s"
      using assms(2) fin by simp
    from eq 2 [OF fin] have "translated (transform c) (s / 2) (s / 2) = transform c"
      by simp
    then have "m_e (translated (transform c) (s / 2) (s / 2)) = m_e (transform c)"
      and "m_f (translated (transform c) (s / 2) (s / 2)) = m_f (transform c)"
      by simp_all
    then have "(m_a (transform c) + m_c (transform c)) * (s / 2) = 0"
      and "(m_b (transform c) + m_d (transform c)) * (s / 2) = 0"
      by (simp_all add: translated_def algebra_simps)
    with s have "m_a (transform c) = - m_c (transform c)"
      and "m_b (transform c) = - m_d (transform c)"
      by auto
    with det show False by simp
  qed
  from 1 2 3 show ?thesis
    by (auto simp: translated_def)
qed

text \<open>
  C10 on a surface in its default state, with \<open>--iborder-width: 4px\<close>: the origin is left
  at \<open>(2, 2)\<close>.
\<close>

theorem transform_left_translated_witness:
  "parseCSSLength ([''--iborder-width'' \<mapsto> Text ''4px''] ''--iborder-width'') (Fin 2) = Fin 4
   \<and> js_lt (Fin 0) (Fin 4)
   \<and> transform (iborder_s_paint initial_ctx \<lparr>width = Fin 100, height = Fin 50\<rparr>
        [''--iborder-width'' \<mapsto> Text ''4px''])
     = \<lparr>m_a = 1, m_b = 0, m_c = 0, m_d = 1, m_e = 2, m_f = 2\<rparr>
   \<and> transform (iborder_s_paint initial_ctx \<lparr>width = Fin 100, height = Fin 50\<rparr>
        [''--iborder-width'' \<mapsto> Text ''4px''])
     \<noteq> transform initial_ctx"
proof -
  let ?props = "[''--iborder-width'' \<mapsto> Text ''4px'']"
  have p: "parseFloat ''4px'' = Fin 4"
    by (simp add: parseFloat_eval)
  have a: "parseCSSLength (?props ''--iborder-width'') (Fin 2) = Fin 4"
    by (simp add: parseCSSLength_Text p isNaN_def js_max0_Fin)
  have b: "js_lt (Fin 0) (Fin 4)"
    by simp
  show ?thesis
    using a b
      transform_left_translated [where props = ?props and strokeWidth = "Fin 4"
        and c = initial_ctx and sz = "\<lparr>width = Fin 100, height = Fin 50\<rparr>" and s = 4, OF a b]
    by (simp add: initial_ctx_def translated_def translate_def)
qed

end
